theory Spec2Isabelle
  imports Complex_Main "HOL-Library.Word"
begin

section \<open>Quantities with units\<close>

text \<open>
  The notebook \<^verbatim>\<open>post.ipynb\<close> measures every buffer with the expression
  \<^verbatim>\<open>(buffer.getbuffer().nbytes * u.byte).to(u.megabyte)\<close>.
  A quantity is a number paired with a unit. Python floats are modelled as reals.
  The notebook uses two units only. How many bytes the conversion utility puts into one
  megabyte is not written in the notebook, so it is the parameter \<open>mb\<close> of the conversion
  (astropy's \<^verbatim>\<open>u.megabyte\<close> is the decimal one, \<open>1000000\<close>).
\<close>

datatype byte_unit = Byte | Megabyte

record quantity =
  qvalue :: real
  qunit :: byte_unit

text \<open>The size of one unit, counted in bytes.\<close>

fun unit_scale :: "real \<Rightarrow> byte_unit \<Rightarrow> real" where
  "unit_scale mb Byte = 1"
| "unit_scale mb Megabyte = mb"

text \<open>\<^verbatim>\<open>n * u.byte\<close>: a bare number times a unit.\<close>

definition times_unit :: "real \<Rightarrow> byte_unit \<Rightarrow> quantity" where
  "times_unit x u = \<lparr>qvalue = x, qunit = u\<rparr>"

text \<open>
  \<^verbatim>\<open>q.to(target)\<close>: the value is multiplied by the ratio of the two unit sizes, and
  the result carries the target unit.
\<close>

definition quantity_to :: "real \<Rightarrow> quantity \<Rightarrow> byte_unit \<Rightarrow> quantity" where
  "quantity_to mb q target =
     \<lparr>qvalue = qvalue q * (unit_scale mb (qunit q) / unit_scale mb target), qunit = target\<rparr>"

text \<open>The right-hand side of the assignment to \<^verbatim>\<open>filesize\<close>, for a buffer of \<open>n\<close> bytes.\<close>

definition to_megabyte :: "real \<Rightarrow> nat \<Rightarrow> quantity" where
  "to_megabyte mb n = quantity_to mb (times_unit (real n) Byte) Megabyte"

section \<open>The random source and the sample data\<close>

text \<open>
  \<^verbatim>\<open>np.random\<close> keeps a hidden generator state. Here the state is passed explicitly, and
  the two primitive samplers of the generator are parameters: \<open>next_double\<close> yields one
  raw draw of the unit interval, \<open>next_gauss\<close> one raw standard-normal draw; each returns
  the advanced state as well. Nothing is assumed about them in the definitions.
\<close>

record 's generator =
  next_double :: "'s \<Rightarrow> real \<times> 's"
  next_gauss :: "'s \<Rightarrow> real \<times> 's"

text \<open>\<open>n\<close> consecutive draws of one sampler, in the order they are taken.\<close>

fun draws :: "('s \<Rightarrow> real \<times> 's) \<Rightarrow> nat \<Rightarrow> 's \<Rightarrow> real list \<times> 's" where
  "draws f 0 s = ([], s)"
| "draws f (Suc n) s =
     (case f s of (x, s1) \<Rightarrow> (case draws f n s1 of (xs, s2) \<Rightarrow> (x # xs, s2)))"

datatype error = ValueError

text \<open>
  \<^verbatim>\<open>np.random.uniform(low, high, size=n)\<close>: every raw draw \<open>u\<close> is mapped to
  \<open>low + (high - low) * u\<close>. The defaults are \<open>low = 0\<close> and \<open>high = 1\<close>.
\<close>

definition uniform :: "'s generator \<Rightarrow> real \<Rightarrow> real \<Rightarrow> nat \<Rightarrow> 's \<Rightarrow> real list \<times> 's" where
  "uniform g low high n s =
     (case draws (next_double g) n s of
        (us, s1) \<Rightarrow> (map (\<lambda>u. low + (high - low) * u) us, s1))"

text \<open>
  Reading a one-dimensional \<open>loc\<close> at column \<open>j\<close> of a two-dimensional result: an array of
  length one is stretched, any other is indexed by the column.
\<close>

definition broadcast_get :: "real list \<Rightarrow> nat \<Rightarrow> real" where
  "broadcast_get loc j = (if length loc = 1 then loc ! 0 else loc ! j)"

text \<open>
  \<^verbatim>\<open>np.random.normal(loc, scale, size=(rows, cols))\<close> with a one-dimensional \<open>loc\<close> and a
  scalar \<open>scale\<close> (default \<open>1\<close>). A negative scale, or a \<open>loc\<close> whose length is neither \<open>cols\<close>
  nor one, raises \<^verbatim>\<open>ValueError\<close>. Otherwise the result is filled row by row, the entry
  in row \<open>i\<close> and column \<open>j\<close> being \<open>loc[j] + scale * z\<close> for its own raw normal draw \<open>z\<close>.
\<close>

definition normal ::
  "'s generator \<Rightarrow> real list \<Rightarrow> real \<Rightarrow> nat \<times> nat \<Rightarrow> 's \<Rightarrow> error + (real list list \<times> 's)" where
  "normal g loc scale shape s =
     (case shape of (rows, cols) \<Rightarrow>
        if scale < 0 then Inl ValueError
        else if length loc \<noteq> cols \<and> length loc \<noteq> 1 then Inl ValueError
        else (case draws (next_gauss g) (rows * cols) s of
                (zs, s1) \<Rightarrow>
                  Inr (map (\<lambda>i. map (\<lambda>j. broadcast_get loc j + scale * zs ! (i * cols + j))
                                     [0..<cols])
                           [0..<rows], s1)))"

section \<open>The plotting model\<close>

text \<open>
  The keyword arguments a \<^verbatim>\<open>plot\<close> call can carry in the notebook; \<open>None\<close> means that the
  keyword is not passed and the library's default applies.
\<close>

record kwargs =
  marker :: "string option"
  linewidth :: "real option"
  alpha :: "real option"
  color :: "string option"
  rasterized :: "bool option"
  zorder :: "int option"

definition no_kwargs :: kwargs where
  "no_kwargs = \<lparr>marker = None, linewidth = None, alpha = None, color = None,
                 rasterized = None, zorder = None\<rparr>"

record line2d =
  ydata :: "real list"
  props :: kwargs

text \<open>
  \<^verbatim>\<open>plt.subplots()\<close> returns a figure holding one axes; the two are modelled as one
  value: the lines added so far, in the order of the \<^verbatim>\<open>plot\<close> calls, and the
  rasterization threshold (\<open>None\<close> until it is set).
\<close>

record axes =
  lines :: "line2d list"
  rasterization_zorder :: "int option"

definition subplots :: axes where
  "subplots = \<lparr>lines = [], rasterization_zorder = None\<rparr>"

datatype array = Arr1 "real list" | Arr2 "real list list"

text \<open>The columns of a matrix stored as a list of rows.\<close>

definition columns :: "real list list \<Rightarrow> real list list" where
  "columns m =
     map (\<lambda>j. map (\<lambda>row. row ! j) m) [0..<(case m of [] \<Rightarrow> 0 | r # _ \<Rightarrow> length r)]"

text \<open>
  \<^verbatim>\<open>ax.plot(y, **kw)\<close>: a one-dimensional \<open>y\<close> adds one line, a two-dimensional \<open>y\<close> adds
  one line per column; every added line carries the keywords of the call.
\<close>

fun plot :: "axes \<Rightarrow> array \<Rightarrow> kwargs \<Rightarrow> axes" where
  "plot ax (Arr1 y) kw = ax\<lparr>lines := lines ax @ [\<lparr>ydata = y, props = kw\<rparr>]\<rparr>"
| "plot ax (Arr2 m) kw =
     ax\<lparr>lines := lines ax @ map (\<lambda>c. \<lparr>ydata = c, props = kw\<rparr>) (columns m)\<rparr>"

definition set_rasterization_zorder :: "axes \<Rightarrow> int \<Rightarrow> axes" where
  "set_rasterization_zorder ax z = ax\<lparr>rasterization_zorder := Some z\<rparr>"

subsection \<open>What a draw emits\<close>

text \<open>
  Drawing is done by the plotting library, not by the notebook. The model follows the
  library's \<^verbatim>\<open>Axes.draw\<close> and the rasterization wrapper around every artist's draw,
  restricted to the lines the notebook plots.
  \<^item> The lines are ordered by zorder; ties keep the order of plotting.
  \<^item> If a rasterization threshold is set and the first line has a zorder strictly below
    it, the lines up to the split index \<^verbatim>\<open>searchsorted(zorders, threshold, side='right')\<close>
    are drawn as one rasterized group: these are the lines whose zorder is at most the
    threshold.
  \<^item> Every other line is rasterized if and only if it carries \<^verbatim>\<open>rasterized=True\<close>.
  \<^item> The renderer starts an image at the first rasterized line and closes it only when a
    line that is not rasterized follows, or at the end: consecutive rasterized lines
    share one image, and a line that is not rasterized is a vector stroke.
  The default zorder of a line is not written in the notebook, so it is the parameter
  \<open>dz\<close> (matplotlib's lines have \<open>2\<close>).
\<close>

datatype draw_op = Vector line2d | Image "line2d list"

definition get_zorder :: "int \<Rightarrow> line2d \<Rightarrow> int" where
  "get_zorder dz l = (case zorder (props l) of None \<Rightarrow> dz | Some z \<Rightarrow> z)"

definition get_rasterized :: "line2d \<Rightarrow> bool" where
  "get_rasterized l = (case rasterized (props l) of None \<Rightarrow> False | Some b \<Rightarrow> b)"

text \<open>The number of leading lines, in zorder order, that form the rasterized group.\<close>

definition split_index :: "int \<Rightarrow> int option \<Rightarrow> line2d list \<Rightarrow> nat" where
  "split_index dz threshold artists =
     (case threshold of
        None \<Rightarrow> 0
      | Some t \<Rightarrow>
          (case artists of
             [] \<Rightarrow> 0
           | a # _ \<Rightarrow>
               if get_zorder dz a < t
               then length (takeWhile (\<lambda>l. get_zorder dz l \<le> t) artists)
               else 0))"

text \<open>
  The renderer: \<open>pending\<close> holds the lines of the image that is open, if any; each line
  comes with the flag that says whether it is drawn rasterized.
\<close>

fun emit :: "line2d list \<Rightarrow> (bool \<times> line2d) list \<Rightarrow> draw_op list" where
  "emit pending [] = (if pending = [] then [] else [Image pending])"
| "emit pending ((r, l) # rest) =
     (if r then emit (pending @ [l]) rest
      else (if pending = [] then [] else [Image pending]) @ Vector l # emit [] rest)"

definition draw :: "int \<Rightarrow> axes \<Rightarrow> draw_op list" where
  "draw dz ax =
     (let artists = sort_key (get_zorder dz) (lines ax);
          k = split_index dz (rasterization_zorder ax) artists
      in emit [] (map (\<lambda>l. (True, l)) (take k artists)
                  @ map (\<lambda>l. (get_rasterized l, l)) (drop k artists)))"

section \<open>The notebook\<close>

text \<open>
  The variables of the notebook that outlive a cell, the generator state, and the values
  printed so far. \<open>filesize = None\<close> and \<open>fig = None\<close> mean that the name is not bound yet.
\<close>

record 's notebook =
  data :: "real list list"
  other_line :: "real list"
  rng :: 's
  fig :: "axes option"
  filesize :: "quantity option"
  printed :: "quantity list"

text \<open>The inner call of the first statement: \<^verbatim>\<open>np.random.uniform(-10, 10, size=256)\<close>.\<close>

definition column_offsets :: "'s generator \<Rightarrow> 's \<Rightarrow> real list \<times> 's" where
  "column_offsets g s = uniform g (- 10) 10 256 s"

text \<open>
  The data cell:
  \<^verbatim>\<open>data = np.random.normal(np.random.uniform(-10, 10, size=256), size=(1000, 256))\<close>
  and \<^verbatim>\<open>other_line = np.random.uniform(size=1000)\<close>.
\<close>

definition cell3 :: "'s generator \<Rightarrow> 's \<Rightarrow> error + 's notebook" where
  "cell3 g s =
     (case column_offsets g s of
        (offsets, s1) \<Rightarrow>
          (case normal g offsets 1 (1000, 256) s1 of
             Inl e \<Rightarrow> Inl e
           | Inr (d, s2) \<Rightarrow>
               (case uniform g 0 1 1000 s2 of
                  (line, s3) \<Rightarrow>
                    Inr \<lparr>data = d, other_line = line, rng = s3, fig = None,
                         filesize = None, printed = []\<rparr>)))"

text \<open>The figures built by the three plotting cells.\<close>

definition fig5 :: "'s notebook \<Rightarrow> axes" where
  "fig5 nb =
     plot (plot subplots (Arr2 (data nb))
             (no_kwargs\<lparr>marker := Some '''', linewidth := Some 1, alpha := Some (1 / 2)\<rparr>))
          (Arr1 (other_line nb))
          (no_kwargs\<lparr>marker := Some '''', color := Some ''k''\<rparr>)"

definition fig7 :: "'s notebook \<Rightarrow> axes" where
  "fig7 nb =
     plot (plot subplots (Arr2 (data nb))
             (no_kwargs\<lparr>marker := Some '''', linewidth := Some 1, alpha := Some (1 / 2),
                        rasterized := Some True\<rparr>))
          (Arr1 (other_line nb))
          (no_kwargs\<lparr>marker := Some '''', color := Some ''k''\<rparr>)"

definition fig9 :: "'s notebook \<Rightarrow> axes" where
  "fig9 nb =
     plot (set_rasterization_zorder
             (plot subplots (Arr2 (data nb))
                (no_kwargs\<lparr>marker := Some '''', linewidth := Some 1, alpha := Some (1 / 2),
                           zorder := Some (- 10)\<rparr>))
             0)
          (Arr1 (other_line nb))
          (no_kwargs\<lparr>marker := Some '''', color := Some ''k''\<rparr>)"

text \<open>
  The serializer \<^verbatim>\<open>fig.savefig(buffer, format=..., dpi=...)\<close> belongs to the plotting
  library; it is a parameter that maps a figure, a format and a resolution to the bytes
  written into the buffer.
\<close>

type_synonym backend = "axes \<Rightarrow> string \<Rightarrow> nat \<Rightarrow> 8 word list"

text \<open>
  The \<^verbatim>\<open>with io.BytesIO() as buffer:\<close> block, which the three plotting cells repeat
  word for word: save as PDF at 250 dpi, take the number of bytes, convert, print.
\<close>

definition report :: "backend \<Rightarrow> real \<Rightarrow> axes \<Rightarrow> 's notebook \<Rightarrow> 's notebook" where
  "report savefig mb f nb =
     (let buffer = savefig f ''pdf'' 250;
          fs = quantity_to mb (times_unit (real (length buffer)) Byte) Megabyte
      in nb\<lparr>fig := Some f, filesize := Some fs, printed := printed nb @ [fs]\<rparr>)"

definition cell5 :: "backend \<Rightarrow> real \<Rightarrow> 's notebook \<Rightarrow> 's notebook" where
  "cell5 savefig mb nb = report savefig mb (fig5 nb) nb"

definition cell7 :: "backend \<Rightarrow> real \<Rightarrow> 's notebook \<Rightarrow> 's notebook" where
  "cell7 savefig mb nb = report savefig mb (fig7 nb) nb"

definition cell9 :: "backend \<Rightarrow> real \<Rightarrow> 's notebook \<Rightarrow> 's notebook" where
  "cell9 savefig mb nb = report savefig mb (fig9 nb) nb"

section \<open>Auxiliary notions for stating the properties\<close>

text \<open>Row count of the matrix equals the length of the reference sequence.\<close>

definition shape_consistent :: "'s notebook \<Rightarrow> bool" where
  "shape_consistent nb = (length (data nb) = length (other_line nb))"

text \<open>
  Forgetting the rasterization configuration of a figure: the \<^verbatim>\<open>rasterized\<close> and
  \<^verbatim>\<open>zorder\<close> keywords of every line and the rasterization threshold of the axes.
\<close>

definition erase_rasterization :: "axes \<Rightarrow> axes" where
  "erase_rasterization ax =
     \<lparr>lines = map (\<lambda>l. l\<lparr>props := (props l)\<lparr>rasterized := None, zorder := None\<rparr>\<rparr>) (lines ax),
      rasterization_zorder = None\<rparr>"

text \<open>
  A deterministic stand-in for the random source, on which the model can be run: the
  state is a counter, the uniform sampler cycles through eighths of the unit interval and
  the normal sampler through \<open>-2, \<dots>, 2\<close>.
\<close>

definition counter_generator :: "nat generator" where
  "counter_generator =
     \<lparr>next_double = (\<lambda>s. (real (s mod 8) / 8, Suc s)),
      next_gauss = (\<lambda>s. (real (s mod 5) - 2, Suc s))\<rparr>"

text \<open>
  A stand-in serializer that writes one zero byte per line of the figure, and a notebook
  state with a 2 by 2 matrix, for running the plotting cells on a concrete input.
\<close>

definition flat_backend :: backend where
  "flat_backend ax fmt dpi = replicate (length (lines ax)) 0"

definition small_notebook :: "unit notebook" where
  "small_notebook = \<lparr>data = [[1, 2], [3, 4]], other_line = [5, 6], rng = (), fig = None,
                      filesize = None, printed = []\<rparr>"

section \<open>Properties of the unit conversion\<close>

text \<open>
  Claim C2. Whatever positive number of bytes the conversion utility puts into a megabyte,
  the measured size of an \<open>n\<close>-byte buffer is \<open>n\<close> divided by that one number and carries
  the unit megabyte; converting this megabyte quantity to megabytes once more leaves it
  unchanged, for every byte count \<open>n\<close>.
\<close>

theorem to_megabyte_idempotent:
  assumes "0 < mb"
  shows "quantity_to mb (to_megabyte mb n) Megabyte = to_megabyte mb n
       \<and> qvalue (to_megabyte mb n) = real n / mb
       \<and> qunit (to_megabyte mb n) = Megabyte"
  using assms by (simp add: to_megabyte_def quantity_to_def times_unit_def)

theorem to_megabyte_idempotent_witness:
  "(0::real) < 1000000
   \<and> quantity_to 1000000 (to_megabyte 1000000 2500000) Megabyte = to_megabyte 1000000 2500000
   \<and> qvalue (to_megabyte 1000000 2500000) = 5 / 2
   \<and> qunit (to_megabyte 1000000 2500000) = Megabyte"
  using to_megabyte_idempotent [of 1000000 2500000] by simp

section \<open>Facts about the random source and the data cell\<close>

lemma draws_Suc:
  "draws f (Suc n) s = (fst (f s) # fst (draws f n (snd (f s))), snd (draws f n (snd (f s))))"
  by (simp split: prod.splits)

lemma length_draws: "length (fst (draws f n s)) = n"
  by (induction n arbitrary: s) (simp_all only: draws.simps(1) draws_Suc fst_conv list.size)

lemma list_all_draws:
  "(\<forall>t. P (fst (f t))) \<Longrightarrow> list_all P (fst (draws f n s))"
  by (induction n arbitrary: s) (simp_all add: draws_Suc del: draws.simps(2))

lemma uniform_unfold:
  "uniform g lo hi n s =
     (map (\<lambda>u. lo + (hi - lo) * u) (fst (draws (next_double g) n s)), snd (draws (next_double g) n s))"
  by (simp add: uniform_def split: prod.splits)

lemma length_uniform: "length (fst (uniform g lo hi n s)) = n"
  by (simp add: uniform_unfold length_draws)

lemma normal_ok:
  assumes "0 \<le> scale" "length loc = cols"
  shows "normal g loc scale (rows, cols) s =
     Inr (map (\<lambda>i. map (\<lambda>j. broadcast_get loc j + scale * fst (draws (next_gauss g) (rows * cols) s) ! (i * cols + j)) [0..<cols]) [0..<rows],
          snd (draws (next_gauss g) (rows * cols) s))"
  using assms by (simp add: normal_def split: prod.splits)

text \<open>
  The data cell never raises: the 256 offsets fit the 256 columns asked for, and the
  default scale is not negative. Its result, written with projections.
\<close>

lemma cell3_unfold:
  "cell3 g s =
     Inr \<lparr>data = map (\<lambda>i. map (\<lambda>j. broadcast_get (fst (column_offsets g s)) j
                 + 1 * fst (draws (next_gauss g) (1000 * 256) (snd (column_offsets g s))) ! (i * 256 + j)) [0..<256]) [0..<1000],
          other_line = fst (uniform g 0 1 1000 (snd (draws (next_gauss g) (1000 * 256) (snd (column_offsets g s))))),
          rng = snd (uniform g 0 1 1000 (snd (draws (next_gauss g) (1000 * 256) (snd (column_offsets g s))))),
          fig = None, filesize = None, printed = []\<rparr>"
proof -
  have len: "length (fst (column_offsets g s)) = 256"
    by (simp add: column_offsets_def length_uniform)
  have n: "normal g (fst (column_offsets g s)) 1 (1000, 256) (snd (column_offsets g s)) = Inr (map (\<lambda>i. map (\<lambda>j. broadcast_get (fst (column_offsets g s)) j
                 + 1 * fst (draws (next_gauss g) (1000 * 256) (snd (column_offsets g s))) ! (i * 256 + j)) [0..<256]) [0..<1000], snd (draws (next_gauss g) (1000 * 256) (snd (column_offsets g s))))"
    using normal_ok [of 1 "fst (column_offsets g s)" 256 g 1000 "snd (column_offsets g s)"] len by simp
  obtain offs s1 where o: "column_offsets g s = (offs, s1)" by (cases "column_offsets g s")
  obtain line s3 where u: "uniform g 0 1 1000 (snd (draws (next_gauss g) (1000 * 256) s1)) = (line, s3)"
    by (cases "uniform g 0 1 1000 (snd (draws (next_gauss g) (1000 * 256) s1))")
  show ?thesis
    unfolding cell3_def using n o u by simp
qed

text \<open>
  Claim C3. For every generator and every generator state, the data cell returns, the
  sample matrix has 1000 rows of 256 entries each, that is shape (1000, 256), and the
  reference sequence has length 1000.
\<close>

theorem sample_shapes:
  "\<exists>nb. cell3 g s = Inr nb
      \<and> map length (data nb) = replicate 1000 256
      \<and> length (other_line nb) = 1000"
  by (simp add: cell3_unfold length_uniform map_replicate_const comp_def)

text \<open>
  The draws of a sampler are its values along the iterated states: draw \<open>k\<close> is taken in
  the state reached after \<open>k\<close> steps.
\<close>

lemma map_upt_Suc_shift: "map h [0..<Suc n] = h 0 # map (\<lambda>k. h (Suc k)) [0..<n]"
proof -
  have "[0..<Suc n] = 0 # map Suc [0..<n]"
    by (simp only: map_Suc_upt upt_conv_Cons [of 0 "Suc n"] zero_less_Suc)
  then show ?thesis by (simp only: list.map map_map comp_def)
qed

lemma draws_iterate:
  "draws f n s = (map (\<lambda>k. fst (f (((snd \<circ> f) ^^ k) s))) [0..<n], ((snd \<circ> f) ^^ n) s)"
proof (induction n arbitrary: s)
  case 0
  show ?case by simp
next
  case (Suc n)
  have "draws f (Suc n) s
      = (fst (f s) # map (\<lambda>k. fst (f (((snd \<circ> f) ^^ k) (snd (f s))))) [0..<n],
         ((snd \<circ> f) ^^ n) (snd (f s)))"
    unfolding draws_Suc Suc.IH by simp
  also have "\<dots> = (map (\<lambda>k. fst (f (((snd \<circ> f) ^^ k) s))) [0..<Suc n], ((snd \<circ> f) ^^ Suc n) s)"
    unfolding map_upt_Suc_shift [of "\<lambda>k. fst (f (((snd \<circ> f) ^^ k) s))" n]
    by (simp add: funpow_swap1)
  finally show ?case .
qed

text \<open>The two scalings map the unit interval onto exactly the two ranges.\<close>

lemma offset_range: "(\<lambda>u. - 10 + (10 - (- 10)) * u) ` {0..<1} = {- 10..<10::real}"
proof (rule set_eqI)
  fix y :: real
  show "y \<in> (\<lambda>u. - 10 + (10 - (- 10)) * u) ` {0..<1} \<longleftrightarrow> y \<in> {- 10..<10}"
  proof
    assume "y \<in> (\<lambda>u. - 10 + (10 - (- 10)) * u) ` {0..<1}"
    then obtain u where "0 \<le> u" "u < 1" "y = - 10 + (10 - (- 10)) * u" by auto
    then show "y \<in> {- 10..<10}" by simp
  next
    assume a: "y \<in> {- 10..<10}"
    have "y = - 10 + (10 - (- 10)) * ((y + 10) / 20)" by (simp add: field_simps)
    moreover have "(y + 10) / 20 \<in> {0..<1}" using a by simp
    ultimately show "y \<in> (\<lambda>u. - 10 + (10 - (- 10)) * u) ` {0..<1}" by (rule image_eqI)
  qed
qed

lemma unit_range: "(\<lambda>u. 0 + (1 - 0) * u) ` {0..<1} = {0..<1::real}"
  by simp

lemma counter_steps: "((snd \<circ> next_double counter_generator) ^^ k) s = s + k"
  by (induction k) (simp_all add: counter_generator_def)

text \<open>
  Claim C10. The two ranges are concrete. The data cell draws 256 offsets, each the
  value \<open>-10 + (10 - (-10)) * u\<close> of its own raw draw \<open>u\<close> of the uniform sampler, taken
  first and in order; these offsets are the ones the columns of the sample matrix are
  built on (entry \<open>i, j\<close> is offset \<open>j\<close> plus its own raw normal draw); and the 1000 values of
  the reference sequence are the values \<open>0 + (1 - 0) * u\<close> of the raw uniform draws taken
  after the normal ones. The two scalings map the unit interval onto exactly \<open>[-10, 10)\<close>
  and \<open>[0, 1)\<close>. So, if every raw draw of the uniform sampler lies in \<open>[0, 1)\<close>, all 256
  offsets lie in \<open>[-10, 10)\<close> and all 1000 values of the reference sequence lie in \<open>[0, 1)\<close>.
\<close>

theorem sample_ranges:
  assumes "\<forall>t. 0 \<le> fst (next_double g t) \<and> fst (next_double g t) < 1"
  shows "\<exists>offsets s1 s2 nb.
      column_offsets g s = (offsets, s1)
    \<and> offsets = map (\<lambda>k. - 10 + (10 - (- 10)) * fst (next_double g (((snd \<circ> next_double g) ^^ k) s)))
                    [0..<256]
    \<and> s1 = ((snd \<circ> next_double g) ^^ 256) s
    \<and> s2 = ((snd \<circ> next_gauss g) ^^ (1000 * 256)) s1
    \<and> cell3 g s = Inr nb
    \<and> data nb = map (\<lambda>i. map (\<lambda>j. offsets ! j
                                   + fst (next_gauss g (((snd \<circ> next_gauss g) ^^ (i * 256 + j)) s1)))
                              [0..<256])
                    [0..<1000]
    \<and> other_line nb = map (\<lambda>k. 0 + (1 - 0) * fst (next_double g (((snd \<circ> next_double g) ^^ k) s2)))
                          [0..<1000]
    \<and> length offsets = 256 \<and> list_all (\<lambda>x. - 10 \<le> x \<and> x < 10) offsets
    \<and> length (other_line nb) = 1000 \<and> list_all (\<lambda>x. 0 \<le> x \<and> x < 1) (other_line nb)
    \<and> (\<lambda>u. - 10 + (10 - (- 10)) * u) ` {0..<1} = {- 10..<10::real}
    \<and> (\<lambda>u. 0 + (1 - 0) * u) ` {0..<1} = {0..<1::real}"
proof -
  define offsets where "offsets = map (\<lambda>k. - 10 + (10 - (- 10)) * fst (next_double g (((snd \<circ> next_double g) ^^ k) s))) [0..<256]"
  define s1 where "s1 = ((snd \<circ> next_double g) ^^ 256) s"
  define s2 where "s2 = ((snd \<circ> next_gauss g) ^^ (1000 * 256)) s1"
  define line where "line = map (\<lambda>k. 0 + (1 - 0) * fst (next_double g (((snd \<circ> next_double g) ^^ k) s2))) [0..<1000]"
  define d where "d = map (\<lambda>i. map (\<lambda>j. offsets ! j
                                   + fst (next_gauss g (((snd \<circ> next_gauss g) ^^ (i * 256 + j)) s1)))
                              [0..<256]) [0..<1000]"
  have co: "column_offsets g s = (offsets, s1)"
    by (simp add: column_offsets_def uniform_unfold draws_iterate offsets_def s1_def comp_def)
  have lo: "length offsets = 256" by (simp add: offsets_def)
  have bg: "j < 256 \<Longrightarrow> broadcast_get offsets j = offsets ! j" for j
    using lo by (simp add: broadcast_get_def)
  have idx: "i < 1000 \<Longrightarrow> j < 256 \<Longrightarrow> i * 256 + j < 1000 * 256" for i j :: nat
    by linarith
  have dd: "map (\<lambda>i. map (\<lambda>j. broadcast_get offsets j
                 + 1 * fst (draws (next_gauss g) (1000 * 256) s1) ! (i * 256 + j)) [0..<256]) [0..<1000] = d"
    unfolding d_def draws_iterate fst_conv
    using bg idx by (simp del: upt_Suc)
  have ll: "fst (uniform g 0 1 1000 (snd (draws (next_gauss g) (1000 * 256) s1))) = line"
    by (simp add: uniform_unfold draws_iterate line_def s2_def comp_def)
  have c3: "cell3 g s = Inr \<lparr>data = d, other_line = line,
        rng = snd (uniform g 0 1 1000 (snd (draws (next_gauss g) (1000 * 256) s1))),
        fig = None, filesize = None, printed = []\<rparr>"
    unfolding cell3_unfold co fst_conv snd_conv dd ll ..
  have a: "list_all (\<lambda>x. - 10 \<le> x \<and> x < 10) offsets"
    unfolding offsets_def list.pred_map comp_def list_all_iff
    using assms by (simp add: algebra_simps)
  have b: "list_all (\<lambda>x. 0 \<le> x \<and> x < 1) line"
    unfolding line_def list.pred_map comp_def list_all_iff
    using assms by simp
  have len: "length line = 1000" by (simp add: line_def)
  show ?thesis
    apply (rule exI [of _ offsets], rule exI [of _ s1], rule exI [of _ s2])
    apply (rule exI [of _ "\<lparr>data = d, other_line = line,
        rng = snd (uniform g 0 1 1000 (snd (draws (next_gauss g) (1000 * 256) s1))),
        fig = None, filesize = None, printed = []\<rparr>"])
    using co c3 lo a b len offset_range unit_range
    by (simp add: offsets_def s1_def s2_def d_def line_def)
qed

theorem sample_ranges_witness:
  "(\<forall>t. 0 \<le> fst (next_double counter_generator t) \<and> fst (next_double counter_generator t) < 1)
 \<and> (\<exists>offsets s1 s2 nb.
      column_offsets counter_generator 0 = (offsets, s1)
    \<and> offsets = map (\<lambda>k. - 10 + (10 - (- 10)) * fst (next_double counter_generator (((snd \<circ> next_double counter_generator) ^^ k) 0)))
                    [0..<256]
    \<and> s1 = ((snd \<circ> next_double counter_generator) ^^ 256) 0
    \<and> s2 = ((snd \<circ> next_gauss counter_generator) ^^ (1000 * 256)) s1
    \<and> cell3 counter_generator 0 = Inr nb
    \<and> data nb = map (\<lambda>i. map (\<lambda>j. offsets ! j
                                   + fst (next_gauss counter_generator (((snd \<circ> next_gauss counter_generator) ^^ (i * 256 + j)) s1)))
                              [0..<256])
                    [0..<1000]
    \<and> other_line nb = map (\<lambda>k. 0 + (1 - 0) * fst (next_double counter_generator (((snd \<circ> next_double counter_generator) ^^ k) s2)))
                          [0..<1000]
    \<and> length offsets = 256 \<and> list_all (\<lambda>x. - 10 \<le> x \<and> x < 10) offsets
    \<and> length (other_line nb) = 1000 \<and> list_all (\<lambda>x. 0 \<le> x \<and> x < 1) (other_line nb)
    \<and> offsets ! 0 = - 10 \<and> offsets ! 7 = 15 / 2)"
proof -
  have h: "\<forall>t. 0 \<le> fst (next_double counter_generator t) \<and> fst (next_double counter_generator t) < 1"
    by (simp add: counter_generator_def)
  have v: "map (\<lambda>k. - 10 + (10 - (- 10)) * fst (next_double counter_generator (((snd \<circ> next_double counter_generator) ^^ k) 0)))
                    [0..<256] ! 0 = - 10"
     "map (\<lambda>k. - 10 + (10 - (- 10)) * fst (next_double counter_generator (((snd \<circ> next_double counter_generator) ^^ k) 0)))
                    [0..<256] ! 7 = 15 / 2"
    by (simp_all add: counter_steps del: upt_Suc) (simp_all add: counter_generator_def)
  from sample_ranges [OF h, of 0] obtain offsets s1 s2 nb where
    w: "column_offsets counter_generator 0 = (offsets, s1)
    \<and> offsets = map (\<lambda>k. - 10 + (10 - (- 10)) * fst (next_double counter_generator (((snd \<circ> next_double counter_generator) ^^ k) 0)))
                    [0..<256]
    \<and> s1 = ((snd \<circ> next_double counter_generator) ^^ 256) 0
    \<and> s2 = ((snd \<circ> next_gauss counter_generator) ^^ (1000 * 256)) s1
    \<and> cell3 counter_generator 0 = Inr nb
    \<and> data nb = map (\<lambda>i. map (\<lambda>j. offsets ! j
                                   + fst (next_gauss counter_generator (((snd \<circ> next_gauss counter_generator) ^^ (i * 256 + j)) s1)))
                              [0..<256])
                    [0..<1000]
    \<and> other_line nb = map (\<lambda>k. 0 + (1 - 0) * fst (next_double counter_generator (((snd \<circ> next_double counter_generator) ^^ k) s2)))
                          [0..<1000]
    \<and> length offsets = 256 \<and> list_all (\<lambda>x. - 10 \<le> x \<and> x < 10) offsets
    \<and> length (other_line nb) = 1000 \<and> list_all (\<lambda>x. 0 \<le> x \<and> x < 1) (other_line nb)"
    by blast
  then have "offsets ! 0 = - 10 \<and> offsets ! 7 = 15 / 2" using v by metis
  with h w show ?thesis by blast
qed

section \<open>Facts about the figures\<close>

text \<open>The lines of the three figures, in the order of the \<^verbatim>\<open>plot\<close> calls.\<close>

lemma lines_fig5:
  "lines (fig5 nb) =
     map (\<lambda>c. \<lparr>ydata = c, props = no_kwargs\<lparr>marker := Some '''', linewidth := Some 1, alpha := Some (1 / 2)\<rparr>\<rparr>)
         (columns (data nb))
     @ [\<lparr>ydata = other_line nb, props = no_kwargs\<lparr>marker := Some '''', color := Some ''k''\<rparr>\<rparr>]"
  by (simp add: fig5_def subplots_def)

lemma lines_fig7:
  "lines (fig7 nb) =
     map (\<lambda>c. \<lparr>ydata = c, props = no_kwargs\<lparr>marker := Some '''', linewidth := Some 1, alpha := Some (1 / 2),
                                              rasterized := Some True\<rparr>\<rparr>)
         (columns (data nb))
     @ [\<lparr>ydata = other_line nb, props = no_kwargs\<lparr>marker := Some '''', color := Some ''k''\<rparr>\<rparr>]"
  by (simp add: fig7_def subplots_def)

lemma lines_fig9:
  "lines (fig9 nb) =
     map (\<lambda>c. \<lparr>ydata = c, props = no_kwargs\<lparr>marker := Some '''', linewidth := Some 1, alpha := Some (1 / 2),
                                              zorder := Some (- 10)\<rparr>\<rparr>)
         (columns (data nb))
     @ [\<lparr>ydata = other_line nb, props = no_kwargs\<lparr>marker := Some '''', color := Some ''k''\<rparr>\<rparr>]"
  by (simp add: fig9_def subplots_def set_rasterization_zorder_def)

lemma threshold_fig:
  "rasterization_zorder (fig5 nb) = None"
  "rasterization_zorder (fig7 nb) = None"
  "rasterization_zorder (fig9 nb) = Some 0"
  by (simp_all add: fig5_def fig7_def fig9_def subplots_def set_rasterization_zorder_def)

lemma length_columns: "m \<noteq> [] \<Longrightarrow> length (columns m) = length (hd m)"
  by (cases m) (simp_all add: columns_def)

lemma length_column: "map length (columns m) = replicate (length (columns m)) (length m)"
  by (simp add: columns_def comp_def map_replicate_const)

lemma cell3_columns:
  "cell3 g s = Inr nb \<Longrightarrow> length (columns (data nb)) = 256 \<and> length (data nb) = 1000 \<and> length (other_line nb) = 1000"
proof -
  assume a: "cell3 g s = Inr nb"
  have d: "data nb = map (\<lambda>i. map (\<lambda>j. broadcast_get (fst (column_offsets g s)) j
                 + 1 * fst (draws (next_gauss g) (1000 * 256) (snd (column_offsets g s))) ! (i * 256 + j)) [0..<256]) [0..<1000]"
    and o: "other_line nb = fst (uniform g 0 1 1000 (snd (draws (next_gauss g) (1000 * 256) (snd (column_offsets g s)))))"
    using a unfolding cell3_unfold by auto
  have ne: "data nb \<noteq> []" unfolding d by simp
  have "length (hd (data nb)) = 256" unfolding d by (simp add: hd_map)
  then show ?thesis using length_columns [OF ne] d o by (simp add: length_uniform)
qed

lemma cell3_returns: "\<exists>nb. cell3 g s = Inr nb"
  by (simp add: cell3_unfold)

text \<open>
  The renderer on a run of rasterized lines and on a run of lines that are not.
\<close>

lemma emit_rasterized: "emit pending (map (\<lambda>l. (True, l)) xs @ rest) = emit (pending @ xs) rest"
  by (induction xs arbitrary: pending) simp_all

lemma emit_vectors: "emit [] (map (\<lambda>l. (False, l)) xs) = map Vector xs"
  by (induction xs) simp_all

lemma sorted_constant_then:
  assumes "map f xs = replicate (length xs) z" "z \<le> f y"
  shows "sort_key f (xs @ [y]) = xs @ [y]"
proof -
  have "sorted (map f (xs @ [y]))" using assms by (simp add: sorted_append)
  then show ?thesis by (rule sort_key_id_if_sorted)
qed

lemma constant_keys:
  assumes "map f xs = replicate (length xs) z" "x \<in> set xs"
  shows "f x = z"
proof -
  have "f x \<in> set (map f xs)" using assms(2) by simp
  then show ?thesis unfolding assms(1) by simp
qed

text \<open>
  A figure whose traces share one zorder below the threshold and whose last line lies
  strictly above it: one image of the traces, then the last line as a vector stroke. If
  the last line sits exactly on the threshold it joins the image.
\<close>

lemma draw_layered:
  assumes "map (get_zorder dz) traces = replicate (length traces) z" "z < t" "t < get_zorder dz ref"
    "traces \<noteq> []" "\<not> get_rasterized ref"
    "rasterization_zorder ax = Some t" "lines ax = traces @ [ref]"
  shows "draw dz ax = [Image traces, Vector ref]"
proof -
  have srt: "sort_key (get_zorder dz) (traces @ [ref]) = traces @ [ref]"
    using assms(1-3) by (intro sorted_constant_then) auto
  have all: "\<forall>l\<in>set traces. get_zorder dz l \<le> t"
    using constant_keys [OF assms(1)] assms(2) by auto
  have tw: "takeWhile (\<lambda>l. get_zorder dz l \<le> t) (traces @ [ref]) = traces"
    using all assms(3) by (simp add: takeWhile_append2)
  have hd: "get_zorder dz (hd traces) < t"
    using constant_keys [OF assms(1), of "hd traces"] assms(2,4) by simp
  have k: "split_index dz (Some t) (traces @ [ref]) = length traces"
    using hd tw assms(4) by (cases traces) (simp_all add: split_index_def)
  show ?thesis
    unfolding draw_def assms(6,7) srt Let_def k
    using assms(4,5) by (simp add: emit_rasterized)
qed

lemma draw_at_threshold:
  assumes "map (get_zorder dz) traces = replicate (length traces) z" "z < t" "get_zorder dz ref = t"
    "traces \<noteq> []" "rasterization_zorder ax = Some t" "lines ax = traces @ [ref]"
  shows "draw dz ax = [Image (traces @ [ref])]"
proof -
  have srt: "sort_key (get_zorder dz) (traces @ [ref]) = traces @ [ref]"
    using assms(1-3) by (intro sorted_constant_then) auto
  have all: "\<forall>l\<in>set (traces @ [ref]). get_zorder dz l \<le> t"
    using constant_keys [OF assms(1)] assms(2,3) by auto
  have tw: "takeWhile (\<lambda>l. get_zorder dz l \<le> t) (traces @ [ref]) = traces @ [ref]"
    using all by (simp only: takeWhile_eq_all_conv)
  have hd: "get_zorder dz (hd traces) < t"
    using constant_keys [OF assms(1), of "hd traces"] assms(2,4) by simp
  have k: "split_index dz (Some t) (traces @ [ref]) = length (traces @ [ref])"
    using hd tw assms(4) by (cases traces) (simp_all add: split_index_def)
  have "emit [] (map (\<lambda>l. (True, l)) (traces @ [ref]) @ []) = [Image (traces @ [ref])]"
    unfolding emit_rasterized by simp
  then show ?thesis
    unfolding draw_def assms(5,6) srt Let_def k by simp
qed

lemma draw_no_threshold:
  assumes "map (get_zorder dz) (lines ax) = replicate (length (lines ax)) z"
    "rasterization_zorder ax = None"
  shows "draw dz ax = emit [] (map (\<lambda>l. (get_rasterized l, l)) (lines ax))"
proof -
  have "sorted (map (get_zorder dz) (lines ax))" unfolding assms(1) by simp
  then have "sort_key (get_zorder dz) (lines ax) = lines ax" by (rule sort_key_id_if_sorted)
  then show ?thesis by (simp add: draw_def assms(2) split_index_def)
qed

text \<open>
  Without a threshold the plain figure is drawn as vector strokes only, and the traces
  marked \<^verbatim>\<open>rasterized=True\<close>, being consecutive, share one image.
\<close>

lemma draw_fig5: "draw dz (fig5 nb) = map Vector (lines (fig5 nb))"
proof -
  have "map (get_zorder dz) (lines (fig5 nb)) = replicate (length (lines (fig5 nb))) dz"
    by (simp add: lines_fig5 comp_def get_zorder_def no_kwargs_def map_replicate_const
        replicate_append_same)
  from draw_no_threshold [OF this threshold_fig(1)]
  have "draw dz (fig5 nb) = emit [] (map (\<lambda>l. (False, l)) (lines (fig5 nb)))"
    by (simp add: lines_fig5 comp_def get_rasterized_def no_kwargs_def)
  then show ?thesis by (simp only: emit_vectors)
qed

lemma draw_fig7:
  assumes "columns (data nb) \<noteq> []"
  shows "draw dz (fig7 nb) = [Image (butlast (lines (fig7 nb))), Vector (last (lines (fig7 nb)))]"
proof -
  define traces where "traces = map (\<lambda>c. \<lparr>ydata = c, props = no_kwargs\<lparr>marker := Some '''', linewidth := Some 1, alpha := Some (1 / 2),
                                              rasterized := Some True\<rparr>\<rparr>) (columns (data nb))"
  define ref where "ref = \<lparr>ydata = other_line nb, props = no_kwargs\<lparr>marker := Some '''', color := Some ''k''\<rparr>\<rparr>"
  have l: "lines (fig7 nb) = traces @ [ref]" by (simp add: lines_fig7 traces_def ref_def)
  have ne: "traces \<noteq> []" using assms by (simp add: traces_def)
  have z: "map (get_zorder dz) (lines (fig7 nb)) = replicate (length (lines (fig7 nb))) dz"
    by (simp add: lines_fig7 comp_def get_zorder_def no_kwargs_def map_replicate_const
        replicate_append_same)
  have ft: "map (\<lambda>l. (get_rasterized l, l)) traces = map (\<lambda>l. (True, l)) traces"
    by (simp add: traces_def get_rasterized_def)
  have fr: "\<not> get_rasterized ref" by (simp add: ref_def get_rasterized_def no_kwargs_def)
  have "map (\<lambda>l. (get_rasterized l, l)) (traces @ [ref])
          = map (\<lambda>l. (True, l)) traces @ [(False, ref)]"
    unfolding map_append ft using fr by simp
  then have "draw dz (fig7 nb) = emit [] (map (\<lambda>l. (True, l)) traces @ [(False, ref)])"
    unfolding draw_no_threshold [OF z threshold_fig(2)] l by (rule arg_cong)
  also have "\<dots> = [Image traces, Vector ref]"
    unfolding emit_rasterized using ne by simp
  finally show ?thesis by (simp add: l)
qed

text \<open>
  Claim C4. In the threshold-layered figure of the notebook's run, the 256 traces (the
  columns of the matrix) all have a zorder strictly below the rasterization threshold and
  are emitted together as one image. The reference line is plotted without a zorder, so
  it has the library's default zorder \<open>dz\<close>; whenever that default is positive
  (matplotlib's is 2) it is at or above the threshold, and the reference line is emitted
  as a vector stroke.
\<close>

theorem threshold_layering:
  assumes "0 < dz"
  shows "\<exists>nb traces ref t.
      cell3 g s = Inr nb
    \<and> lines (fig9 nb) = traces @ [ref]
    \<and> length traces = 256
    \<and> map ydata traces = columns (data nb)
    \<and> ydata ref = other_line nb
    \<and> rasterization_zorder (fig9 nb) = Some t
    \<and> list_all (\<lambda>l. get_zorder dz l < t) traces
    \<and> get_zorder dz ref = dz
    \<and> t \<le> get_zorder dz ref
    \<and> draw dz (fig9 nb) = [Image traces, Vector ref]"
proof -
  obtain nb where nb: "cell3 g s = Inr nb" using cell3_returns [of g s] by auto
  define traces where "traces = map (\<lambda>c. \<lparr>ydata = c, props = no_kwargs\<lparr>marker := Some '''', linewidth := Some 1, alpha := Some (1 / 2),
                                              zorder := Some (- 10)\<rparr>\<rparr>) (columns (data nb))"
  define ref where "ref = \<lparr>ydata = other_line nb, props = no_kwargs\<lparr>marker := Some '''', color := Some ''k''\<rparr>\<rparr>"
  have l: "lines (fig9 nb) = traces @ [ref]" by (simp add: lines_fig9 traces_def ref_def)
  have n: "length traces = 256" using cell3_columns [OF nb] by (simp add: traces_def)
  have y: "map ydata traces = columns (data nb)" by (simp add: traces_def comp_def)
  have zt: "map (get_zorder dz) traces = replicate (length traces) (- 10)"
    by (simp add: traces_def comp_def get_zorder_def map_replicate_const)
  have zr: "get_zorder dz ref = dz" by (simp add: ref_def get_zorder_def no_kwargs_def)
  have rr: "\<not> get_rasterized ref" by (simp add: ref_def get_rasterized_def no_kwargs_def)
  have la: "list_all (\<lambda>l. get_zorder dz l < 0) traces"
    by (simp add: traces_def list.pred_map comp_def get_zorder_def list_all_iff)
  have ne: "traces \<noteq> []" using n by auto
  have d: "draw dz (fig9 nb) = [Image traces, Vector ref]"
    using draw_layered [OF zt _ _ ne rr threshold_fig(3) l] assms zr by simp
  show ?thesis
    apply (rule exI [of _ nb], rule exI [of _ traces], rule exI [of _ ref], rule exI [of _ 0])
    using nb l n y la zr assms d threshold_fig(3) [of nb] by (simp add: ref_def)
qed

theorem threshold_layering_witness:
  "(0::int) < 2 \<and> (\<exists>nb traces ref t.
      cell3 counter_generator 0 = Inr nb
    \<and> lines (fig9 nb) = traces @ [ref]
    \<and> length traces = 256
    \<and> map ydata traces = columns (data nb)
    \<and> ydata ref = other_line nb
    \<and> rasterization_zorder (fig9 nb) = Some t
    \<and> list_all (\<lambda>l. get_zorder 2 l < t) traces
    \<and> get_zorder 2 ref = 2
    \<and> t \<le> get_zorder 2 ref
    \<and> draw 2 (fig9 nb) = [Image traces, Vector ref])"
proof -
  have h: "(0::int) < 2" by simp
  show ?thesis using h threshold_layering [OF h, of counter_generator 0] by blast
qed

text \<open>
  The condition on the default is needed: with a default zorder equal to the threshold
  the reference line would be rasterized together with the traces.
\<close>

lemma draw_fig9_at_threshold:
  assumes "columns (data nb) \<noteq> []"
  shows "draw 0 (fig9 nb) = [Image (lines (fig9 nb))]"
proof -
  define traces where "traces = map (\<lambda>c. \<lparr>ydata = c, props = no_kwargs\<lparr>marker := Some '''', linewidth := Some 1, alpha := Some (1 / 2),
                                              zorder := Some (- 10)\<rparr>\<rparr>) (columns (data nb))"
  define ref where "ref = \<lparr>ydata = other_line nb, props = no_kwargs\<lparr>marker := Some '''', color := Some ''k''\<rparr>\<rparr>"
  have l: "lines (fig9 nb) = traces @ [ref]" by (simp add: lines_fig9 traces_def ref_def)
  have zt: "map (get_zorder 0) traces = replicate (length traces) (- 10)"
    by (simp add: traces_def comp_def get_zorder_def map_replicate_const)
  have zr: "get_zorder 0 ref = 0" by (simp add: ref_def get_zorder_def no_kwargs_def)
  have ne: "traces \<noteq> []" using assms by (simp add: traces_def)
  show ?thesis
    using draw_at_threshold [OF zt _ zr ne threshold_fig(3) l] l by simp
qed

section \<open>Facts about the size reporter\<close>

lemma report_fields:
  "data (report sf mb f nb) = data nb"
  "other_line (report sf mb f nb) = other_line nb"
  "rng (report sf mb f nb) = rng nb"
  "fig (report sf mb f nb) = Some f"
  "filesize (report sf mb f nb) = Some (to_megabyte mb (length (sf f ''pdf'' 250)))"
  "printed (report sf mb f nb) = printed nb @ [to_megabyte mb (length (sf f ''pdf'' 250))]"
  by (simp_all add: report_def Let_def to_megabyte_def)

lemma fig_frame:
  "fig5 (report sf mb f nb) = fig5 nb"
  "fig7 (report sf mb f nb) = fig7 nb"
  "fig9 (report sf mb f nb) = fig9 nb"
  by (simp_all add: fig5_def fig7_def fig9_def report_fields)

lemma to_megabyte_value: "to_megabyte mb n = \<lparr>qvalue = real n / mb, qunit = Megabyte\<rparr>"
  by (simp add: to_megabyte_def quantity_to_def times_unit_def)

text \<open>
  Claim C7. Each of the three plotting cells serializes its own figure with the format
  \<^verbatim>\<open>pdf\<close> at 250 dpi, takes the length of the buffer in bytes and appends to the
  printed output exactly one quantity: that length divided by the number of bytes in a
  megabyte, with the unit megabyte. A run of the three cells prints three such sizes,
  each computed from its own figure. The value left in \<^verbatim>\<open>filesize\<close> is never read:
  a cell started with any other value there ends in the same state.
\<close>

theorem size_reporter:
  "printed (cell5 sf mb nb) =
     printed nb @ [\<lparr>qvalue = real (length (sf (fig5 nb) ''pdf'' 250)) / mb, qunit = Megabyte\<rparr>]
 \<and> printed (cell7 sf mb nb) =
     printed nb @ [\<lparr>qvalue = real (length (sf (fig7 nb) ''pdf'' 250)) / mb, qunit = Megabyte\<rparr>]
 \<and> printed (cell9 sf mb nb) =
     printed nb @ [\<lparr>qvalue = real (length (sf (fig9 nb) ''pdf'' 250)) / mb, qunit = Megabyte\<rparr>]
 \<and> printed (cell9 sf mb (cell7 sf mb (cell5 sf mb nb))) =
     printed nb @ [\<lparr>qvalue = real (length (sf (fig5 nb) ''pdf'' 250)) / mb, qunit = Megabyte\<rparr>,
                   \<lparr>qvalue = real (length (sf (fig7 nb) ''pdf'' 250)) / mb, qunit = Megabyte\<rparr>,
                   \<lparr>qvalue = real (length (sf (fig9 nb) ''pdf'' 250)) / mb, qunit = Megabyte\<rparr>]
 \<and> cell5 sf mb (nb\<lparr>filesize := x\<rparr>) = cell5 sf mb nb
 \<and> cell7 sf mb (nb\<lparr>filesize := x\<rparr>) = cell7 sf mb nb
 \<and> cell9 sf mb (nb\<lparr>filesize := x\<rparr>) = cell9 sf mb nb"
proof -
  have a: "cell5 sf mb (nb\<lparr>filesize := x\<rparr>) = cell5 sf mb nb"
    by (simp add: cell5_def report_def Let_def fig5_def)
  have b: "cell7 sf mb (nb\<lparr>filesize := x\<rparr>) = cell7 sf mb nb"
    by (simp add: cell7_def report_def Let_def fig7_def)
  have c: "cell9 sf mb (nb\<lparr>filesize := x\<rparr>) = cell9 sf mb nb"
    by (simp add: cell9_def report_def Let_def fig9_def)
  show ?thesis using a b c
    by (simp add: cell5_def cell7_def cell9_def report_fields fig_frame to_megabyte_value)
qed

text \<open>
  Claim C8. After the data cell the matrix has as many rows as the reference sequence
  has values, 1000 both, and this still holds after each plotting cell of the run; in
  each of the three figures all 257 lines have 1000 points. No plotting cell changes
  either array, whatever state it starts from.
\<close>

theorem shape_consistency:
  "(\<exists>nb. cell3 g s = Inr nb
      \<and> length (data nb) = 1000 \<and> length (other_line nb) = 1000
      \<and> shape_consistent nb
      \<and> shape_consistent (cell5 sf mb nb)
      \<and> shape_consistent (cell7 sf mb (cell5 sf mb nb))
      \<and> shape_consistent (cell9 sf mb (cell7 sf mb (cell5 sf mb nb)))
      \<and> map (length \<circ> ydata) (lines (fig5 nb)) = replicate 257 1000
      \<and> map (length \<circ> ydata) (lines (fig7 nb)) = replicate 257 1000
      \<and> map (length \<circ> ydata) (lines (fig9 nb)) = replicate 257 1000)
 \<and> data (cell5 sf mb x) = data x \<and> other_line (cell5 sf mb x) = other_line x
 \<and> data (cell7 sf mb x) = data x \<and> other_line (cell7 sf mb x) = other_line x
 \<and> data (cell9 sf mb x) = data x \<and> other_line (cell9 sf mb x) = other_line x"
proof -
  obtain nb where nb: "cell3 g s = Inr nb" using cell3_returns [of g s] by auto
  note sz = cell3_columns [OF nb]
  have cols: "map length (columns (data nb)) = replicate 256 1000"
    using length_column [of "data nb"] sz by simp
  have r: "replicate 256 (1000::nat) @ [1000] = replicate 257 1000"
  proof -
    have "replicate 257 (1000::nat) = replicate (Suc 256) 1000" by simp
    then show ?thesis by (simp only: replicate_Suc replicate_append_same)
  qed
  have f5: "map (length \<circ> ydata) (lines (fig5 nb)) = replicate 257 1000"
    using cols sz r by (simp add: lines_fig5 comp_def)
  have f7: "map (length \<circ> ydata) (lines (fig7 nb)) = replicate 257 1000"
    using cols sz r by (simp add: lines_fig7 comp_def)
  have f9: "map (length \<circ> ydata) (lines (fig9 nb)) = replicate 257 1000"
    using cols sz r by (simp add: lines_fig9 comp_def)
  have run: "shape_consistent nb \<and> shape_consistent (cell5 sf mb nb)
      \<and> shape_consistent (cell7 sf mb (cell5 sf mb nb))
      \<and> shape_consistent (cell9 sf mb (cell7 sf mb (cell5 sf mb nb)))"
    using sz by (simp add: shape_consistent_def cell5_def cell7_def cell9_def report_fields)
  have frame: "data (cell5 sf mb x) = data x \<and> other_line (cell5 sf mb x) = other_line x
 \<and> data (cell7 sf mb x) = data x \<and> other_line (cell7 sf mb x) = other_line x
 \<and> data (cell9 sf mb x) = data x \<and> other_line (cell9 sf mb x) = other_line x"
    by (simp add: cell5_def cell7_def cell9_def report_fields)
  show ?thesis using nb sz f5 f7 f9 run frame by blast
qed

text \<open>
  Claim C9. Once the rasterization configuration is forgotten, the three figures are one
  and the same: the columns of the matrix as traces with \<^verbatim>\<open>marker=""\<close>,
  \<^verbatim>\<open>linewidth=1.0\<close> and \<^verbatim>\<open>alpha=0.5\<close>, followed by the reference sequence as the last
  line with \<^verbatim>\<open>marker=""\<close> and \<^verbatim>\<open>color="k"\<close>. Each measured size is the length of the
  figure's serialization as \<^verbatim>\<open>pdf\<close> at 250 dpi, converted by the same conversion.
  Hence, for a serializer that does not look at the rasterization configuration, the
  three measured sizes are equal.
\<close>

theorem only_rasterization_differs:
  "(let common =
       \<lparr>lines =
          map (\<lambda>c. \<lparr>ydata = c,
                     props = no_kwargs\<lparr>marker := Some '''', linewidth := Some 1,
                                       alpha := Some (1 / 2)\<rparr>\<rparr>)
              (columns (data nb))
          @ [\<lparr>ydata = other_line nb,
               props = no_kwargs\<lparr>marker := Some '''', color := Some ''k''\<rparr>\<rparr>],
        rasterization_zorder = None\<rparr>
    in erase_rasterization (fig5 nb) = common
     \<and> erase_rasterization (fig7 nb) = common
     \<and> erase_rasterization (fig9 nb) = common)
 \<and> filesize (cell5 sf mb nb) = Some (to_megabyte mb (length (sf (fig5 nb) ''pdf'' 250)))
 \<and> filesize (cell7 sf mb nb) = Some (to_megabyte mb (length (sf (fig7 nb) ''pdf'' 250)))
 \<and> filesize (cell9 sf mb nb) = Some (to_megabyte mb (length (sf (fig9 nb) ''pdf'' 250)))
 \<and> ((\<forall>ax. sf ax ''pdf'' 250 = sf (erase_rasterization ax) ''pdf'' 250) \<longrightarrow>
      filesize (cell5 sf mb nb) = filesize (cell7 sf mb nb)
    \<and> filesize (cell7 sf mb nb) = filesize (cell9 sf mb nb))"
proof -
  have e5: "erase_rasterization (fig5 nb) = erase_rasterization (fig7 nb)"
    by (simp add: erase_rasterization_def lines_fig5 lines_fig7 no_kwargs_def)
  have e7: "erase_rasterization (fig7 nb) = erase_rasterization (fig9 nb)"
    by (simp add: erase_rasterization_def lines_fig7 lines_fig9 no_kwargs_def)
  have c: "erase_rasterization (fig5 nb) = \<lparr>lines =
          map (\<lambda>c. \<lparr>ydata = c,
                     props = no_kwargs\<lparr>marker := Some '''', linewidth := Some 1,
                                       alpha := Some (1 / 2)\<rparr>\<rparr>)
              (columns (data nb))
          @ [\<lparr>ydata = other_line nb,
               props = no_kwargs\<lparr>marker := Some '''', color := Some ''k''\<rparr>\<rparr>],
        rasterization_zorder = None\<rparr>"
    by (simp add: erase_rasterization_def lines_fig5 no_kwargs_def)
  have f: "filesize (cell5 sf mb nb) = Some (to_megabyte mb (length (sf (fig5 nb) ''pdf'' 250)))
 \<and> filesize (cell7 sf mb nb) = Some (to_megabyte mb (length (sf (fig7 nb) ''pdf'' 250)))
 \<and> filesize (cell9 sf mb nb) = Some (to_megabyte mb (length (sf (fig9 nb) ''pdf'' 250)))"
    by (simp add: cell5_def cell7_def cell9_def report_fields)
  have g: "filesize (cell5 sf mb nb) = filesize (cell7 sf mb nb)
    \<and> filesize (cell7 sf mb nb) = filesize (cell9 sf mb nb)"
    if h: "\<forall>ax. sf ax ''pdf'' 250 = sf (erase_rasterization ax) ''pdf'' 250"
  proof -
    have "sf (fig5 nb) ''pdf'' 250 = sf (fig7 nb) ''pdf'' 250"
      using h e5 by metis
    moreover have "sf (fig7 nb) ''pdf'' 250 = sf (fig9 nb) ''pdf'' 250"
      using h e7 by metis
    ultimately show ?thesis using f by simp
  qed
  show ?thesis unfolding Let_def using c e5 e7 f g by simp
qed

theorem only_rasterization_differs_witness:
  "(\<forall>ax. flat_backend ax ''pdf'' 250 = flat_backend (erase_rasterization ax) ''pdf'' 250)
 \<and> filesize (cell5 flat_backend 1000000 small_notebook) = filesize (cell7 flat_backend 1000000 small_notebook)
 \<and> filesize (cell7 flat_backend 1000000 small_notebook) = filesize (cell9 flat_backend 1000000 small_notebook)
 \<and> filesize (cell9 flat_backend 1000000 small_notebook) = Some \<lparr>qvalue = 3 / 1000000, qunit = Megabyte\<rparr>"
proof -
  have h: "\<forall>ax. flat_backend ax ''pdf'' 250 = flat_backend (erase_rasterization ax) ''pdf'' 250"
    by (simp add: flat_backend_def erase_rasterization_def)
  have v: "filesize (cell9 flat_backend 1000000 small_notebook) = Some \<lparr>qvalue = 3 / 1000000, qunit = Megabyte\<rparr>"
    by (simp add: cell9_def report_def Let_def fig9_def subplots_def set_rasterization_zorder_def
        columns_def small_notebook_def flat_backend_def quantity_to_def times_unit_def)
  have "filesize (cell5 flat_backend 1000000 small_notebook) = filesize (cell7 flat_backend 1000000 small_notebook)
      \<and> filesize (cell7 flat_backend 1000000 small_notebook) = filesize (cell9 flat_backend 1000000 small_notebook)"
    using h only_rasterization_differs [of small_notebook flat_backend 1000000] by blast
  with h v show ?thesis by blast
qed

end
